theory Spec2Isabelle
  imports Complex_Main "HOL-Library.Word" "HOL-Library.Sublist"
begin

section \<open>JavaScript values used by the client and the server\<close>

text \<open>
  A JavaScript string is a sequence of UTF-16 code units. String literals of the source
  are ASCII and are written \<open>lit ''...''\<close>.
\<close>

type_synonym jstring = "16 word list"

definition lit :: "string \<Rightarrow> jstring" where
  "lit s = map of_char s"

text \<open>
  \<open>String.prototype.trim\<close> strips the ECMAScript \<open>WhiteSpace\<close> and \<open>LineTerminator\<close>
  code points from both ends: TAB, LF, VT, FF, CR, SPACE, NBSP, the Unicode space
  separators, LS, PS and the byte order mark. All of them are single code units.
\<close>

definition isWhiteSpace :: "16 word \<Rightarrow> bool" where
  "isWhiteSpace c \<longleftrightarrow>
     c \<in> {0x09, 0x0A, 0x0B, 0x0C, 0x0D, 0x20, 0xA0, 0x1680,
          0x2028, 0x2029, 0x202F, 0x205F, 0x3000, 0xFEFF}
     \<or> (0x2000 \<le> c \<and> c \<le> 0x200A)"

definition trim :: "jstring \<Rightarrow> jstring" where
  "trim s = rev (dropWhile isWhiteSpace (rev (dropWhile isWhiteSpace s)))"

text \<open>
  A value caught by \<open>catch (err)\<close>: the handlers only ask \<open>err instanceof Error\<close> and,
  if so, read \<open>err.message\<close>.
\<close>

datatype thrown = ErrorInstance jstring | NotAnError

text \<open>
  The value \<open>response.json()\<close> resolves to. \<open>JObject kvs\<close> is the object whose property
  \<open>k\<close> is \<open>map_of kvs k\<close>. The payload of a number plays no role in this program.
\<close>

datatype json =
    JNull
  | JBoolean bool
  | JNumber rat
  | JString jstring
  | JArray "json list"
  | JObject "(jstring \<times> json) list"

text \<open>
  The message of the \<open>TypeError\<close> raised by reading a property of \<open>null\<close>; the wording is
  the engine's (this is V8's), and nothing below depends on it.
\<close>

definition null_text_message :: jstring where
  "null_text_message = lit ''Cannot read properties of null (reading 'text')''"

text \<open>
  The expression \<open>data.text\<close>: \<open>None\<close> is \<open>undefined\<close>. Reading a property of \<open>null\<close>
  throws; booleans, numbers, strings and arrays have no property named \<open>text\<close>.
\<close>

fun read_text :: "json \<Rightarrow> thrown + json option" where
  "read_text JNull = Inl (ErrorInstance null_text_message)"
| "read_text (JObject kvs) = Inr (map_of kvs (lit ''text''))"
| "read_text (JBoolean b) = Inr None"
| "read_text (JNumber n) = Inr None"
| "read_text (JString s) = Inr None"
| "read_text (JArray xs) = Inr None"

text \<open>\<open>typeof v === "string" ? v.trim() : ""\<close>\<close>

fun text_or_empty :: "json option \<Rightarrow> jstring" where
  "text_or_empty (Some (JString s)) = trim s"
| "text_or_empty v = []"


section \<open>The HTTP exchange as the client sees it\<close>

text \<open>
  What \<open>await response.json()\<close> does with the body: it rejects with an \<open>Error\<close>
  (a \<open>SyntaxError\<close> for text that is not JSON) carrying a message, or resolves to the
  parsed value.
\<close>

datatype body = JsonRejects jstring | JsonValue json

record response =
  status :: nat
  statusText :: jstring
  body :: body

text \<open>\<open>response.ok\<close>: the status is in the range 200 to 299.\<close>

definition ok :: "response \<Rightarrow> bool" where
  "ok r \<longleftrightarrow> 200 \<le> status r \<and> status r \<le> 299"

text \<open>How the promise returned by \<open>fetch\<close> settles.\<close>

datatype fetch_outcome = Rejected thrown | Responded response

record jfile =
  fileName :: jstring
  fileType :: jstring
  fileBytes :: "8 word list"


section \<open>The state of the client\<close>

datatype Mode = Home | Camera | Processing | Result

text \<open>A \<open>MediaStream\<close> is the list of its tracks; a track is identified by a number.\<close>

type_synonym stream = "nat list"

text \<open>Calls into the platform, in the order in which they are made.\<close>

datatype call =
    GetUserMedia
  | SetTimeout nat
  | TrackStop nat
  | DrawImage
  | ToDataURL jstring
  | ToBlob jstring rat
  | ReadAsDataURL jfile
  | FetchPost jstring jstring jfile
  | ClipboardWrite jstring

text \<open>
  The component's state (\<open>useState\<close>), its refs (\<open>useRef\<close>), and what the platform holds
  for it. A ref to an element is \<open>None\<close> while the element is not mounted:
  \<open>fileInputRef\<close> holds the value of the file input, \<open>videoRef\<close> the \<open>srcObject\<close> of the
  video element, \<open>canvasRef\<close> the width and height of the canvas. \<open>ended\<close> is the set of
  tracks that have been stopped. The \<open>pending\<close> fields count the asynchronous operations
  that were started and have not called back yet.
\<close>

record world =
  mode :: Mode
  result :: "jstring option"
  error :: "jstring option"
  preview :: "jstring option"
  fileInputRef :: "jstring option"
  videoRef :: "stream option option"
  canvasRef :: "(nat \<times> nat) option"
  streamRef :: "stream option"
  ended :: "nat set"
  calls :: "call list"
  pendingMedia :: nat
  pendingTimers :: "stream list"
  pendingReaders :: nat
  pendingBlobs :: nat
  pendingFetch :: nat

definition init :: world where
  "init = \<lparr> mode = Home, result = None, error = None, preview = None,
            fileInputRef = Some [], videoRef = None, canvasRef = None, streamRef = None,
            ended = {}, calls = [],
            pendingMedia = 0, pendingTimers = [], pendingReaders = 0,
            pendingBlobs = 0, pendingFetch = 0 \<rparr>"


section \<open>The handlers of \<open>App\<close>\<close>

subsection \<open>\<open>handleOCR\<close>\<close>

text \<open>
  The body of the \<open>try\<close> block after \<open>await fetch\<close>: \<open>Inl\<close> is the value thrown inside
  it, \<open>Inr\<close> the string handed to \<open>setResult\<close>.
\<close>

definition ocr_try :: "fetch_outcome \<Rightarrow> thrown + jstring" where
  "ocr_try outcome =
     (case outcome of
        Rejected e \<Rightarrow> Inl e
      | Responded r \<Rightarrow>
          if \<not> ok r then Inl (ErrorInstance (lit ''Server error: '' @ statusText r))
          else (case body r of
                  JsonRejects m \<Rightarrow> Inl (ErrorInstance m)
                | JsonValue d \<Rightarrow>
                    (case read_text d of
                       Inl e \<Rightarrow> Inl e
                     | Inr v \<Rightarrow> Inr (text_or_empty v))))"

text \<open>\<open>err instanceof Error ? err.message : "OCR failed"\<close>\<close>

fun error_message :: "thrown \<Rightarrow> jstring" where
  "error_message (ErrorInstance m) = m"
| "error_message NotAnError = lit ''OCR failed''"

text \<open>\<open>handleOCR\<close> up to the \<open>await\<close>: the three setters and the request.\<close>

definition handleOCR_begin :: "jfile \<Rightarrow> world \<Rightarrow> world" where
  "handleOCR_begin f w =
     w\<lparr> mode := Processing, error := None, result := None,
        calls := calls w @ [FetchPost (lit ''/api/ocr'') (lit ''image'') f],
        pendingFetch := Suc (pendingFetch w) \<rparr>"

text \<open>\<open>handleOCR\<close> from the \<open>await\<close> on, once the promise has settled.\<close>

definition handleOCR_resume :: "fetch_outcome \<Rightarrow> world \<Rightarrow> world" where
  "handleOCR_resume outcome w =
     (case ocr_try outcome of
        Inr t \<Rightarrow> w\<lparr> result := Some t, mode := Result \<rparr>
      | Inl e \<Rightarrow> w\<lparr> error := Some (error_message e), mode := Result \<rparr>)"

subsection \<open>\<open>handleFileSelect\<close>\<close>

text \<open>The argument is \<open>e.target.files?.[0]\<close>.\<close>

definition handleFileSelect :: "jfile option \<Rightarrow> world \<Rightarrow> world" where
  "handleFileSelect sel w =
     (case sel of
        None \<Rightarrow> w
      | Some f \<Rightarrow>
          handleOCR_begin f
            (w\<lparr> calls := calls w @ [ReadAsDataURL f],
                pendingReaders := Suc (pendingReaders w) \<rparr>))"

text \<open>\<open>reader.onload\<close>, with the data URL that was read.\<close>

definition reader_onload :: "jstring \<Rightarrow> world \<Rightarrow> world" where
  "reader_onload url w = w\<lparr> preview := Some url \<rparr>"

subsection \<open>\<open>startCamera\<close>\<close>

definition startCamera_begin :: "world \<Rightarrow> world" where
  "startCamera_begin w =
     w\<lparr> error := None, calls := calls w @ [GetUserMedia],
        pendingMedia := Suc (pendingMedia w) \<rparr>"

text \<open>After the \<open>await\<close>, with the stream that \<open>getUserMedia\<close> resolved to.\<close>

definition startCamera_granted :: "stream \<Rightarrow> world \<Rightarrow> world" where
  "startCamera_granted s w =
     w\<lparr> streamRef := Some s, mode := Camera,
        calls := calls w @ [SetTimeout 50],
        pendingTimers := pendingTimers w @ [s] \<rparr>"

text \<open>The \<open>catch\<close> branch: \<open>getUserMedia\<close> rejected.\<close>

definition startCamera_denied :: "world \<Rightarrow> world" where
  "startCamera_denied w = w\<lparr> error := Some (lit ''Camera access denied or unavailable'') \<rparr>"

text \<open>The callback given to \<open>setTimeout\<close>.\<close>

definition bind_video :: "stream \<Rightarrow> world \<Rightarrow> world" where
  "bind_video s w =
     (case videoRef w of
        None \<Rightarrow> w
      | Some src \<Rightarrow> w\<lparr> videoRef := Some (Some s) \<rparr>)"

subsection \<open>\<open>stopCamera\<close>\<close>

definition stopCamera :: "world \<Rightarrow> world" where
  "stopCamera w =
     (case streamRef w of
        None \<Rightarrow> w\<lparr> streamRef := None \<rparr>
      | Some s \<Rightarrow>
          w\<lparr> ended := ended w \<union> set s,
             calls := calls w @ map TrackStop s,
             streamRef := None \<rparr>)"

subsection \<open>\<open>capturePhoto\<close>\<close>

text \<open>
  What the platform answers during one call of \<open>capturePhoto\<close>: the size of the video,
  whether \<open>getContext("2d")\<close> gives a context, and the string \<open>toDataURL\<close> returns.
\<close>

record shot =
  videoWidth :: nat
  videoHeight :: nat
  context2d :: bool
  dataURL :: jstring

definition capturePhoto :: "shot \<Rightarrow> world \<Rightarrow> world" where
  "capturePhoto sh w =
     (if videoRef w = None \<or> canvasRef w = None then w
      else
        let w1 = w\<lparr> canvasRef := Some (videoWidth sh, videoHeight sh) \<rparr>;
            w2 = (if context2d sh then w1\<lparr> calls := calls w1 @ [DrawImage] \<rparr> else w1);
            w3 = w2\<lparr> calls := calls w2 @ [ToDataURL (lit ''image/jpeg'')],
                      preview := Some (dataURL sh) \<rparr>;
            w4 = stopCamera w3
        in w4\<lparr> calls := calls w4 @ [ToBlob (lit ''image/jpeg'') (9 / 10)],
               pendingBlobs := Suc (pendingBlobs w4) \<rparr>)"

text \<open>The callback given to \<open>toBlob\<close>; the blob is \<open>null\<close> when encoding failed.\<close>

definition blob_callback :: "8 word list option \<Rightarrow> world \<Rightarrow> world" where
  "blob_callback blob w =
     (case blob of
        None \<Rightarrow> w
      | Some bytes \<Rightarrow>
          handleOCR_begin
            \<lparr> fileName = lit ''capture.jpg'', fileType = lit ''image/jpeg'',
              fileBytes = bytes \<rparr> w)"

subsection \<open>\<open>handleReset\<close> and \<open>handleCopy\<close>\<close>

definition handleReset :: "world \<Rightarrow> world" where
  "handleReset w =
     (let w1 = stopCamera w;
          w2 = w1\<lparr> mode := Home, result := None, error := None, preview := None \<rparr>
      in case fileInputRef w2 of
           None \<Rightarrow> w2
         | Some v \<Rightarrow> w2\<lparr> fileInputRef := Some [] \<rparr>)"

text \<open>\<open>if (result)\<close>: \<open>null\<close> and the empty string are falsy.\<close>

definition handleCopy :: "world \<Rightarrow> world" where
  "handleCopy w =
     (case result w of
        None \<Rightarrow> w
      | Some t \<Rightarrow> if t = [] then w else w\<lparr> calls := calls w @ [ClipboardWrite t] \<rparr>)"


section \<open>Rendering and events\<close>

text \<open>
  What \<open>App\<close> returns decides which elements exist. In camera mode it returns the camera
  view alone: the video and the canvas are mounted and the file input is not. In every
  other mode it returns the main shell: the file input is mounted, the video and the
  canvas are not. An element that is mounted anew starts empty (a canvas is 300 by 150).
\<close>

definition render :: "world \<Rightarrow> world" where
  "render w =
     (if mode w = Camera then
        w\<lparr> fileInputRef := None,
           videoRef := (case videoRef w of None \<Rightarrow> Some None | Some src \<Rightarrow> Some src),
           canvasRef := (case canvasRef w of None \<Rightarrow> Some (300, 150) | Some d \<Rightarrow> Some d) \<rparr>
      else
        w\<lparr> fileInputRef := (case fileInputRef w of None \<Rightarrow> Some [] | Some v \<Rightarrow> Some v),
           videoRef := None,
           canvasRef := None \<rparr>)"

text \<open>
  What can happen to the component: the user acts on an element, or an asynchronous
  operation calls back. \<open>ChooseFile v sel\<close> is the change event of the file input with
  its new value and \<open>files[0]\<close>.
\<close>

datatype event =
    ClickScan
  | MediaGranted stream
  | MediaDenied
  | TimerFired stream
  | ChooseFile jstring "jfile option"
  | ReaderLoaded jstring
  | ClickShutter shot
  | BlobEncoded "8 word list option"
  | FetchSettled fetch_outcome
  | ClickReset
  | EditResult jstring
  | ClickCopy

text \<open>\<open>error ? ... : ...\<close> in the result view: \<open>null\<close> and the empty string are falsy.\<close>

definition error_shown :: "world \<Rightarrow> bool" where
  "error_shown w \<longleftrightarrow> (case error w of None \<Rightarrow> False | Some m \<Rightarrow> m \<noteq> [])"

text \<open>
  The elements a handler is bound to exist in some modes only: the scan card at home,
  the file input in every mode but camera (it is part of the main shell; only its label
  is confined to the home view), the shutter and the cancel button in camera mode, the
  reset buttons in the result view, the text area and the copy button in the result
  view without an error. A callback needs its operation to be pending.
\<close>

fun enabled :: "world \<Rightarrow> event \<Rightarrow> bool" where
  "enabled w ClickScan = (mode w = Home)"
| "enabled w (ChooseFile v sel) = (mode w \<noteq> Camera)"
| "enabled w (ClickShutter sh) = (mode w = Camera)"
| "enabled w ClickReset = (mode w = Camera \<or> mode w = Result)"
| "enabled w (EditResult t) = (mode w = Result \<and> \<not> error_shown w)"
| "enabled w ClickCopy = (mode w = Result \<and> \<not> error_shown w)"
| "enabled w (MediaGranted s) = (0 < pendingMedia w)"
| "enabled w MediaDenied = (0 < pendingMedia w)"
| "enabled w (TimerFired s) = (s \<in> set (pendingTimers w))"
| "enabled w (ReaderLoaded url) = (0 < pendingReaders w)"
| "enabled w (BlobEncoded blob) = (0 < pendingBlobs w)"
| "enabled w (FetchSettled outcome) = (0 < pendingFetch w)"

text \<open>The code that runs on an event, before React renders again.\<close>

fun handle :: "event \<Rightarrow> world \<Rightarrow> world" where
  "handle ClickScan w = startCamera_begin w"
| "handle (MediaGranted s) w =
     startCamera_granted s (w\<lparr> pendingMedia := pendingMedia w - 1 \<rparr>)"
| "handle MediaDenied w = startCamera_denied (w\<lparr> pendingMedia := pendingMedia w - 1 \<rparr>)"
| "handle (TimerFired s) w =
     bind_video s (w\<lparr> pendingTimers := remove1 s (pendingTimers w) \<rparr>)"
| "handle (ChooseFile v sel) w =
     (case fileInputRef w of
        None \<Rightarrow> w
      | Some old \<Rightarrow> handleFileSelect sel (w\<lparr> fileInputRef := Some v \<rparr>))"
| "handle (ReaderLoaded url) w =
     reader_onload url (w\<lparr> pendingReaders := pendingReaders w - 1 \<rparr>)"
| "handle (ClickShutter sh) w = capturePhoto sh w"
| "handle (BlobEncoded blob) w =
     blob_callback blob (w\<lparr> pendingBlobs := pendingBlobs w - 1 \<rparr>)"
| "handle (FetchSettled outcome) w =
     handleOCR_resume outcome (w\<lparr> pendingFetch := pendingFetch w - 1 \<rparr>)"
| "handle ClickReset w = handleReset w"
| "handle (EditResult t) w = w\<lparr> result := Some t \<rparr>"
| "handle ClickCopy w = handleCopy w"

definition step :: "event \<Rightarrow> world \<Rightarrow> world" where
  "step e w = render (handle e w)"

text \<open>A run is a list of events, each enabled where it happens.\<close>

fun run :: "event list \<Rightarrow> world \<Rightarrow> world option" where
  "run [] w = Some w"
| "run (e # es) w = (if enabled w e then run es (step e w) else None)"

text \<open>The modes a run goes through, the starting one included.\<close>

fun mode_path :: "event list \<Rightarrow> world \<Rightarrow> Mode list" where
  "mode_path [] w = [mode w]"
| "mode_path (e # es) w = mode w # mode_path es (step e w)"

text \<open>
  The transitions the specification permits: home to camera or processing, camera to
  processing or home, processing to result, result to home.
\<close>

definition spec_edge :: "Mode \<Rightarrow> Mode \<Rightarrow> bool" where
  "spec_edge a b \<longleftrightarrow>
     (a, b) \<in> {(Home, Camera), (Home, Processing), (Camera, Processing), (Camera, Home),
               (Processing, Result), (Result, Home)}"

text \<open>Every change of mode along the path is a permitted transition.\<close>

fun lawful :: "Mode list \<Rightarrow> bool" where
  "lawful (a # b # ms) = ((a = b \<or> spec_edge a b) \<and> lawful (b # ms))"
| "lawful ms = True"


section \<open>The server: \<open>POST /api/ocr\<close>\<close>

text \<open>
  The uploaded part named \<open>image\<close>, as multer presents it to the file filter and to the
  route: its declared MIME type and the number of bytes it carries. The bytes themselves
  are only forwarded to the transcription service.
\<close>

record upload =
  mimetype :: jstring
  byteCount :: nat

text \<open>
  An error object on the server. Neither \<open>new Error(message)\<close> nor multer's own errors
  have a \<open>status\<close> or \<open>statusCode\<close> property unless one is assigned.
\<close>

record server_error =
  message :: jstring
  errStatus :: "nat option"
  errStatusCode :: "nat option"

definition new_Error :: "jstring \<Rightarrow> server_error" where
  "new_Error m = \<lparr> message = m, errStatus = None, errStatusCode = None \<rparr>"

text \<open>The \<open>fileFilter\<close> option: \<open>Inr True\<close> is \<open>cb(null, true)\<close>, \<open>Inl e\<close> is \<open>cb(e)\<close>.\<close>

definition fileFilter :: "upload \<Rightarrow> server_error + bool" where
  "fileFilter f =
     (if prefix (lit ''image/'') (mimetype f) then Inr True
      else Inl (new_Error (lit ''Only image files are allowed'')))"

text \<open>The \<open>limits.fileSize\<close> option.\<close>

definition fileSize :: nat where
  "fileSize = 50 * 1024 * 1024"

text \<open>
  The middleware \<open>upload.single("image")\<close>, as multer documents it: a filter that calls
  back with an error aborts the request with that error, a filter that calls back with
  \<open>false\<close> skips the file, a file longer than \<open>limits.fileSize\<close> aborts the request with
  multer's \<open>LIMIT_FILE_SIZE\<close> error. \<open>Inl e\<close> is \<open>next(e)\<close>; \<open>Inr file\<close> is \<open>next()\<close> with
  \<open>req.file\<close> set or left undefined.
\<close>

definition multer_single :: "upload option \<Rightarrow> server_error + upload option" where
  "multer_single part =
     (case part of
        None \<Rightarrow> Inr None
      | Some f \<Rightarrow>
          (case fileFilter f of
             Inl e \<Rightarrow> Inl e
           | Inr False \<Rightarrow> Inr None
           | Inr True \<Rightarrow>
               if fileSize < byteCount f then Inl (new_Error (lit ''File too large''))
               else Inr (Some f)))"

text \<open>What the server sends back.\<close>

datatype payload = JsonBody json | ErrorPage

record reply =
  code :: nat
  payload :: payload

text \<open>
  How \<open>anthropic.messages.create\<close> settles: it rejects with an error carrying a message,
  or resolves to a message whose content is a list of blocks; a block has a \<open>text\<close>
  property or not.
\<close>

datatype block = TextBlock jstring | OtherBlock

datatype api_outcome = ApiRejects jstring | ApiMessage "block list"

text \<open>
  The messages of the \<open>TypeError\<close>s raised by \<open>message.content[0].text.trim()\<close> when
  there is no first block or it has no text (V8's wording).
\<close>

definition no_block_message :: jstring where
  "no_block_message = lit ''Cannot read properties of undefined (reading 'text')''"

definition no_text_message :: jstring where
  "no_text_message = lit ''Cannot read properties of undefined (reading 'trim')''"

definition failed_reply :: "jstring \<Rightarrow> reply" where
  "failed_reply details =
     \<lparr> code = 500,
       payload = JsonBody (JObject [(lit ''error'', JString (lit ''Failed to process image'')),
                                    (lit ''details'', JString details)]) \<rparr>"

text \<open>The route handler; \<open>now\<close> is \<open>new Date().toISOString()\<close>.\<close>

definition ocr_route :: "upload option \<Rightarrow> api_outcome \<Rightarrow> jstring \<Rightarrow> reply" where
  "ocr_route reqFile api now =
     (case reqFile of
        None \<Rightarrow>
          \<lparr> code = 400,
            payload = JsonBody (JObject [(lit ''error'', JString (lit ''No image provided''))]) \<rparr>
      | Some f \<Rightarrow>
          (case api of
             ApiRejects m \<Rightarrow> failed_reply m
           | ApiMessage [] \<Rightarrow> failed_reply no_block_message
           | ApiMessage (OtherBlock # bs) \<Rightarrow> failed_reply no_text_message
           | ApiMessage (TextBlock t # bs) \<Rightarrow>
               \<lparr> code = 200,
                 payload = JsonBody (JObject [(lit ''success'', JBoolean True),
                                              (lit ''text'', JString (trim t)),
                                              (lit ''timestamp'', JString now)]) \<rparr>))"

text \<open>
  Express's default error handler, as Express documents it: the status is
  \<open>err.status\<close>, or else \<open>err.statusCode\<close>, when that is a number from 400 to 599, and
  500 otherwise. \<open>server.js\<close> registers no error-handling middleware of its own, so
  this is where an error passed to \<open>next\<close> ends.
\<close>

definition error_status :: "nat option \<Rightarrow> nat option" where
  "error_status c =
     (case c of
        None \<Rightarrow> None
      | Some n \<Rightarrow> if 400 \<le> n \<and> n < 600 then Some n else None)"

definition express_default :: "server_error \<Rightarrow> reply" where
  "express_default e =
     \<lparr> code = (case error_status (errStatus e) of
                 Some n \<Rightarrow> n
               | None \<Rightarrow>
                   (case error_status (errStatusCode e) of
                      Some n \<Rightarrow> n
                    | None \<Rightarrow> 500)),
       payload = ErrorPage \<rparr>"

text \<open>
  \<open>app.post("/api/ocr", upload.single("image"), handler)\<close>: the middleware runs first; an
  error it passes on skips the route handler and reaches the final handler.
\<close>

definition post_api_ocr ::
  "(server_error \<Rightarrow> reply) \<Rightarrow> upload option \<Rightarrow> api_outcome \<Rightarrow> jstring \<Rightarrow> reply" where
  "post_api_ocr final part api now =
     (case multer_single part of
        Inl e \<Rightarrow> final e
      | Inr reqFile \<Rightarrow> ocr_route reqFile api now)"


section \<open>Derived notions used in the statements\<close>

text \<open>
  \<open>handleOCR\<close> from its call to its end, when nothing else runs while it waits for the
  response.
\<close>

definition handleOCR :: "jfile \<Rightarrow> fetch_outcome \<Rightarrow> world \<Rightarrow> world" where
  "handleOCR f outcome w = handleOCR_resume outcome (handleOCR_begin f w)"

text \<open>The tracks of the stream that \<open>streamRef\<close> holds, none when it is \<open>null\<close>.\<close>

definition held_tracks :: "world \<Rightarrow> nat list" where
  "held_tracks w = (case streamRef w of None \<Rightarrow> [] | Some s \<Rightarrow> s)"

text \<open>
  In the words of the specification, the field of a JSON body: the member of that name
  of a JSON object; a body that is not an object has no fields.
\<close>

fun json_field :: "jstring \<Rightarrow> json \<Rightarrow> json option" where
  "json_field k (JObject kvs) = map_of kvs k"
| "json_field k d = None"


text \<open>Whenever the mode is \<open>Home\<close>, \<open>streamRef\<close> is null: every event keeps this.\<close>

definition home_released :: "world \<Rightarrow> bool" where
  "home_released w \<longleftrightarrow> (mode w = Home \<longrightarrow> streamRef w = None)"

text \<open>
  A callback is on time when the mode is still the one in which its
  operation is started: \<open>Home\<close> for the camera request, \<open>Camera\<close> for the encoding,
  \<open>Processing\<close> for the upload. A file is chosen on time when it is chosen at home,
  where the label of the file input is.
\<close>

definition on_time :: "world \<Rightarrow> event \<Rightarrow> bool" where
  "on_time w e \<longleftrightarrow>
     (case e of
        MediaGranted s \<Rightarrow> mode w = Home
      | ChooseFile v sel \<Rightarrow> mode w = Home
      | BlobEncoded blob \<Rightarrow> mode w = Camera
      | FetchSettled outcome \<Rightarrow> mode w = Processing
      | _ \<Rightarrow> True)"

fun timely :: "event list \<Rightarrow> world \<Rightarrow> bool" where
  "timely [] w = True"
| "timely (e # es) w = (enabled w e \<and> on_time w e \<and> timely es (step e w))"


text \<open>
  A run in which the camera is granted late: the user clicks the scan card, chooses a
  file while the request for the camera is pending, the camera is granted, and the
  upload completes.
\<close>

definition late_grant :: "event list" where
  "late_grant =
     [ClickScan,
      ChooseFile (lit ''a.png'')
        (Some \<lparr> fileName = lit ''a.png'', fileType = lit ''image/png'', fileBytes = [1, 2] \<rparr>),
      MediaGranted [4],
      FetchSettled (Responded \<lparr> status = 200, statusText = lit ''OK'',
                      body = JsonValue (JObject [(lit ''text'', JString (lit ''hi''))]) \<rparr>)]"


section \<open>The relay: what \<open>handleOCR\<close> makes of a settled request\<close>

lemma handleOCR_resume_cases:
  "(\<exists>t. ocr_try outcome = Inr t \<and>
        handleOCR_resume outcome w = w\<lparr> result := Some t, mode := Result \<rparr>) \<or>
   (\<exists>e. ocr_try outcome = Inl e \<and>
        handleOCR_resume outcome w = w\<lparr> error := Some (error_message e), mode := Result \<rparr>)"
  by (cases "ocr_try outcome") (simp_all add: handleOCR_resume_def)

lemma handleOCR_begin_clears:
  "result (handleOCR_begin f w) = None \<and> error (handleOCR_begin f w) = None"
  by (simp add: handleOCR_begin_def)

text \<open>
  Claim C2. However the request settles (the promise of \<open>fetch\<close> rejects, the response
  is not ok, its body is not JSON, or it is), \<open>handleOCR\<close> ends in mode \<open>Result\<close> with
  exactly one of \<open>result\<close> and \<open>error\<close> set: one of them, and not both. Every value
  thrown inside the \<open>try\<close> block is turned into the error string by the \<open>catch\<close>
  clause, so nothing is thrown to the caller; a rejected \<open>fetch\<close> in particular gives
  the error and no text.
\<close>

theorem handleOCR_exactly_one_outcome:
  "mode (handleOCR f outcome w) = Result \<and>
   ((\<exists>t. result (handleOCR f outcome w) = Some t \<and> error (handleOCR f outcome w) = None) \<or>
    (\<exists>m. error (handleOCR f outcome w) = Some m \<and> result (handleOCR f outcome w) = None)) \<and>
   \<not> ((\<exists>t. result (handleOCR f outcome w) = Some t) \<and>
       (\<exists>m. error (handleOCR f outcome w) = Some m)) \<and>
   result (handleOCR f (Rejected e) w) = None \<and>
   error (handleOCR f (Rejected e) w) = Some (error_message e)"
proof -
  let ?b = "handleOCR_begin f w"
  have clear: "result ?b = None" "error ?b = None"
    by (simp_all add: handleOCR_begin_def)
  have rej: "ocr_try (Rejected e) = Inl e"
    by (simp add: ocr_try_def)
  from handleOCR_resume_cases [of outcome ?b] clear
  have main: "mode (handleOCR f outcome w) = Result \<and>
     ((\<exists>t. result (handleOCR f outcome w) = Some t \<and> error (handleOCR f outcome w) = None) \<or>
      (\<exists>m. error (handleOCR f outcome w) = Some m \<and> result (handleOCR f outcome w) = None))"
    unfolding handleOCR_def by (elim disjE exE conjE) simp_all
  then have excl: "\<not> ((\<exists>t. result (handleOCR f outcome w) = Some t) \<and>
       (\<exists>m. error (handleOCR f outcome w) = Some m))"
    by auto
  have "result (handleOCR f (Rejected e) w) = None \<and>
        error (handleOCR f (Rejected e) w) = Some (error_message e)"
    using clear by (simp add: handleOCR_def handleOCR_resume_def rej)
  with main excl show ?thesis by blast
qed

theorem handleOCR_exactly_one_outcome_witness:
  "mode (handleOCR \<lparr> fileName = lit ''a.png'', fileType = lit ''image/png'', fileBytes = [1, 2] \<rparr>
           (Rejected (ErrorInstance (lit ''Failed to fetch''))) init) = Result \<and>
   error (handleOCR \<lparr> fileName = lit ''a.png'', fileType = lit ''image/png'', fileBytes = [1, 2] \<rparr>
           (Rejected (ErrorInstance (lit ''Failed to fetch''))) init) = Some (lit ''Failed to fetch'') \<and>
   result (handleOCR \<lparr> fileName = lit ''a.png'', fileType = lit ''image/png'', fileBytes = [1, 2] \<rparr>
           (Rejected (ErrorInstance (lit ''Failed to fetch''))) init) = None"
  using handleOCR_exactly_one_outcome
    [of "\<lparr> fileName = lit ''a.png'', fileType = lit ''image/png'', fileBytes = [1, 2] \<rparr>"
        "Rejected (ErrorInstance (lit ''Failed to fetch''))" init
        "ErrorInstance (lit ''Failed to fetch'')"]
  by simp

text \<open>
  Claim C5. For a response whose status is not in 200 to 299, \<open>handleOCR\<close> sets the error
  to \<open>"Server error: "\<close> followed by the status text, whatever the status code and the
  body are, sets no text, and enters mode \<open>Result\<close>.
\<close>

theorem non_ok_response_server_error:
  assumes "\<not> ok r"
  shows "handleOCR_resume (Responded r) w =
           w\<lparr> error := Some (lit ''Server error: '' @ statusText r), mode := Result \<rparr> \<and>
         mode (handleOCR f (Responded r) w) = Result \<and>
         error (handleOCR f (Responded r) w) = Some (lit ''Server error: '' @ statusText r) \<and>
         result (handleOCR f (Responded r) w) = None \<and>
         mode (step (FetchSettled (Responded r)) w) = Result \<and>
         error (step (FetchSettled (Responded r)) w) =
           Some (lit ''Server error: '' @ statusText r)"
proof -
  have thrown: "ocr_try (Responded r) = Inl (ErrorInstance (lit ''Server error: '' @ statusText r))"
    using assms by (simp add: ocr_try_def)
  have resume: "handleOCR_resume (Responded r) v =
           v\<lparr> error := Some (lit ''Server error: '' @ statusText r), mode := Result \<rparr>" for v
    by (simp add: handleOCR_resume_def thrown)
  show ?thesis
    by (simp add: resume handleOCR_def handleOCR_begin_def step_def render_def)
qed

theorem non_ok_response_server_error_witness:
  "\<not> ok \<lparr> status = 500, statusText = lit ''Internal Server Error'',
          body = JsonValue (JObject [(lit ''error'', JString (lit ''Failed to process image'')),
                                     (lit ''details'', JString (lit ''upstream timeout''))]) \<rparr> \<and>
   handleOCR_resume
     (Responded \<lparr> status = 500, statusText = lit ''Internal Server Error'',
          body = JsonValue (JObject [(lit ''error'', JString (lit ''Failed to process image'')),
                                     (lit ''details'', JString (lit ''upstream timeout''))]) \<rparr>)
     init
   = init\<lparr> error := Some (lit ''Server error: Internal Server Error''), mode := Result \<rparr>"
proof -
  let ?r = "\<lparr> status = 500, statusText = lit ''Internal Server Error'',
          body = JsonValue (JObject [(lit ''error'', JString (lit ''Failed to process image'')),
                                     (lit ''details'', JString (lit ''upstream timeout''))]) \<rparr>"
  have h: "\<not> ok ?r" by (simp add: ok_def)
  have l: "lit ''Server error: '' @ lit ''Internal Server Error'' = lit ''Server error: Internal Server Error''"
    by (simp add: lit_def)
  from non_ok_response_server_error [OF h, of init] h l show ?thesis by simp
qed

text \<open>
  Claim C10. For a response with a status in 200 to 299 whose body is not JSON, so that
  \<open>response.json()\<close> rejects with an error carrying a message, \<open>handleOCR\<close> sets the
  error to that message, sets no text, and enters mode \<open>Result\<close>.
\<close>

theorem ok_response_invalid_json:
  assumes "ok r" and "body r = JsonRejects m"
  shows "handleOCR_resume (Responded r) w = w\<lparr> error := Some m, mode := Result \<rparr> \<and>
         mode (handleOCR f (Responded r) w) = Result \<and>
         error (handleOCR f (Responded r) w) = Some m \<and>
         result (handleOCR f (Responded r) w) = None \<and>
         mode (step (FetchSettled (Responded r)) w) = Result \<and>
         error (step (FetchSettled (Responded r)) w) = Some m"
proof -
  have thrown: "ocr_try (Responded r) = Inl (ErrorInstance m)"
    using assms by (simp add: ocr_try_def)
  have resume: "handleOCR_resume (Responded r) v = v\<lparr> error := Some m, mode := Result \<rparr>" for v
    by (simp add: handleOCR_resume_def thrown)
  show ?thesis
    by (simp add: resume handleOCR_def handleOCR_begin_def step_def render_def)
qed

theorem ok_response_invalid_json_witness:
  "ok \<lparr> status = 200, statusText = lit ''OK'', body = JsonRejects (lit ''Unexpected token <'') \<rparr> \<and>
   handleOCR_resume
     (Responded \<lparr> status = 200, statusText = lit ''OK'',
                  body = JsonRejects (lit ''Unexpected token <'') \<rparr>) init
   = init\<lparr> error := Some (lit ''Unexpected token <''), mode := Result \<rparr>"
proof -
  let ?r = "\<lparr> status = 200, statusText = lit ''OK'', body = JsonRejects (lit ''Unexpected token <'') \<rparr>"
  have h: "ok ?r" by (simp add: ok_def)
  have b: "body ?r = JsonRejects (lit ''Unexpected token <'')" by simp
  from ok_response_invalid_json [OF h b, of init] h show ?thesis by simp
qed


lemma read_text_field:
  "d \<noteq> JNull \<Longrightarrow> read_text d = Inr (json_field (lit ''text'') d)"
  by (cases d) simp_all

lemma text_or_empty_not_string:
  "\<forall>s. v \<noteq> Some (JString s) \<Longrightarrow> text_or_empty v = []"
  by (cases v rule: text_or_empty.cases) auto

text \<open>
  Claim C6 fails on the code for the body \<open>null\<close>: it is JSON and has no \<open>text\<close>
  field, but reading \<open>data.text\<close> throws, and \<open>handleOCR\<close> ends with the error set
  and no text, where the claim has the empty text and no error.
\<close>

theorem ok_response_null_body_gives_error:
  "ok \<lparr> status = 200, statusText = lit ''OK'', body = JsonValue JNull \<rparr> \<and>
   body \<lparr> status = 200, statusText = lit ''OK'', body = JsonValue JNull \<rparr> = JsonValue JNull \<and>
   json_field (lit ''text'') JNull = None \<and>
   result (handleOCR \<lparr> fileName = lit ''a.png'', fileType = lit ''image/png'', fileBytes = [1, 2] \<rparr>
             (Responded \<lparr> status = 200, statusText = lit ''OK'', body = JsonValue JNull \<rparr>) init)
     = None \<and>
   result (handleOCR \<lparr> fileName = lit ''a.png'', fileType = lit ''image/png'', fileBytes = [1, 2] \<rparr>
             (Responded \<lparr> status = 200, statusText = lit ''OK'', body = JsonValue JNull \<rparr>) init)
     \<noteq> Some [] \<and>
   error (handleOCR \<lparr> fileName = lit ''a.png'', fileType = lit ''image/png'', fileBytes = [1, 2] \<rparr>
             (Responded \<lparr> status = 200, statusText = lit ''OK'', body = JsonValue JNull \<rparr>) init)
     = Some null_text_message"
  by (simp add: ok_def handleOCR_def handleOCR_resume_def handleOCR_begin_def ocr_try_def init_def)

text \<open>
  Every other JSON body is treated as the claim says. For a response with a status in
  200 to 299: if the body has a \<open>text\<close> field that is a string, \<open>handleOCR\<close> sets the
  text to that string trimmed; if the body is not \<open>null\<close> and has no \<open>text\<close> field or
  one that is not a string, \<open>handleOCR\<close> sets the text to the empty string. In both
  cases it sets no error and enters mode \<open>Result\<close>.
\<close>

theorem ok_response_json_text:
  assumes "ok r" and "body r = JsonValue d"
  shows "(json_field (lit ''text'') d = Some (JString s) \<longrightarrow>
            handleOCR_resume (Responded r) w = w\<lparr> result := Some (trim s), mode := Result \<rparr> \<and>
            result (handleOCR f (Responded r) w) = Some (trim s) \<and>
            error (handleOCR f (Responded r) w) = None \<and>
            mode (handleOCR f (Responded r) w) = Result) \<and>
         (d \<noteq> JNull \<and> (\<forall>t. json_field (lit ''text'') d \<noteq> Some (JString t)) \<longrightarrow>
            handleOCR_resume (Responded r) w = w\<lparr> result := Some [], mode := Result \<rparr> \<and>
            result (handleOCR f (Responded r) w) = Some [] \<and>
            error (handleOCR f (Responded r) w) = None \<and>
            mode (handleOCR f (Responded r) w) = Result)"
proof -
  have resume: "handleOCR_resume (Responded r) v =
      v\<lparr> result := Some (text_or_empty (json_field (lit ''text'') d)), mode := Result \<rparr>"
    if "d \<noteq> JNull" for v
    using assms that by (simp add: handleOCR_resume_def ocr_try_def read_text_field)
  have string: "d \<noteq> JNull \<and> text_or_empty (json_field (lit ''text'') d) = trim s"
    if "json_field (lit ''text'') d = Some (JString s)"
    using that by (cases d) simp_all
  have other: "text_or_empty (json_field (lit ''text'') d) = []"
    if "\<forall>t. json_field (lit ''text'') d \<noteq> Some (JString t)"
    using that by (rule text_or_empty_not_string)
  show ?thesis
    using string other
    by (auto simp add: resume handleOCR_def handleOCR_begin_def)
qed

theorem ok_response_json_text_witness:
  "handleOCR_resume
     (Responded \<lparr> status = 200, statusText = lit ''OK'',
                  body = JsonValue (JObject [(lit ''success'', JBoolean True),
                                             (lit ''text'', JString (lit '' Hello world ''))]) \<rparr>)
     init
   = init\<lparr> result := Some (lit ''Hello world''), mode := Result \<rparr> \<and>
   handleOCR_resume
     (Responded \<lparr> status = 200, statusText = lit ''OK'',
                  body = JsonValue (JObject [(lit ''success'', JBoolean True)]) \<rparr>)
     init
   = init\<lparr> result := Some [], mode := Result \<rparr>"
proof -
  let ?d1 = "JObject [(lit ''success'', JBoolean True),
                      (lit ''text'', JString (lit '' Hello world ''))]"
  let ?d2 = "JObject [(lit ''success'', JBoolean True)]"
  let ?r1 = "\<lparr> status = 200, statusText = lit ''OK'', body = JsonValue ?d1 \<rparr>"
  let ?r2 = "\<lparr> status = 200, statusText = lit ''OK'', body = JsonValue ?d2 \<rparr>"
  have ok1: "ok ?r1" and ok2: "ok ?r2" by (simp_all add: ok_def)
  have f1: "json_field (lit ''text'') ?d1 = Some (JString (lit '' Hello world ''))"
    by (simp add: lit_def)
  have f2: "?d2 \<noteq> JNull \<and> (\<forall>t. json_field (lit ''text'') ?d2 \<noteq> Some (JString t))"
    by (simp add: lit_def)
  have tr: "trim (lit '' Hello world '') = lit ''Hello world''"
    by (simp add: trim_def lit_def isWhiteSpace_def)
  from ok_response_json_text [OF ok1, of ?d1 "lit '' Hello world ''" init] f1 tr
  have a: "handleOCR_resume (Responded ?r1) init
             = init\<lparr> result := Some (lit ''Hello world''), mode := Result \<rparr>"
    by simp
  from ok_response_json_text [OF ok2, of ?d2 s init] f2
  have b: "handleOCR_resume (Responded ?r2) init = init\<lparr> result := Some [], mode := Result \<rparr>"
    by simp
  from a b show ?thesis by simp
qed

section \<open>Releasing the camera\<close>

lemma stopCamera_streamRef: "streamRef (stopCamera w) = None"
  by (simp add: stopCamera_def split: option.splits)

lemma stopCamera_null: "streamRef w = None \<Longrightarrow> stopCamera w = w"
  by (simp add: stopCamera_def)

lemma stopCamera_twice: "stopCamera (stopCamera w) = stopCamera w"
  by (simp add: stopCamera_null stopCamera_streamRef)

text \<open>
  Claim C8. \<open>stopCamera\<close> can be called on every state and leaves \<open>streamRef\<close> null. When
  \<open>streamRef\<close> is already null it changes nothing at all: no platform call is made.
  When the stream it holds is already closed (all of its tracks have ended), no track
  changes its state. Calling it twice gives the state that calling it once gives.
\<close>

theorem stopCamera_idempotent_and_safe:
  "streamRef (stopCamera w) = None \<and>
   (streamRef w = None \<longrightarrow> stopCamera w = w) \<and>
   (set (held_tracks w) \<subseteq> ended w \<longrightarrow> ended (stopCamera w) = ended w) \<and>
   stopCamera (stopCamera w) = stopCamera w"
proof -
  have "ended (stopCamera w) = ended w" if "set (held_tracks w) \<subseteq> ended w"
    using that by (auto simp add: stopCamera_def held_tracks_def split: option.splits)
  then show ?thesis
    by (simp add: stopCamera_streamRef stopCamera_null stopCamera_twice)
qed

theorem stopCamera_idempotent_and_safe_witness:
  "stopCamera init = init \<and>
   streamRef (stopCamera (init\<lparr> streamRef := Some [4], ended := {4} \<rparr>)) = None \<and>
   ended (stopCamera (init\<lparr> streamRef := Some [4], ended := {4} \<rparr>)) = {4}"
proof -
  have n: "streamRef init = None" by (simp add: init_def)
  have e: "set (held_tracks (init\<lparr> streamRef := Some [4], ended := {4} \<rparr>))
             \<subseteq> ended (init\<lparr> streamRef := Some [4], ended := {4} \<rparr>)"
    by (simp add: held_tracks_def)
  from stopCamera_idempotent_and_safe [of init] n
       stopCamera_idempotent_and_safe [of "init\<lparr> streamRef := Some [4], ended := {4} \<rparr>"] e
  show ?thesis by simp
qed


section \<open>Reset\<close>

lemma handleReset_fields:
  "mode (handleReset w) = Home \<and> result (handleReset w) = None \<and>
   error (handleReset w) = None \<and> preview (handleReset w) = None \<and>
   streamRef (handleReset w) = None"
  by (simp add: handleReset_def Let_def stopCamera_streamRef split: option.splits)

lemma handleReset_fileInput:
  "fileInputRef (handleReset w) = (case fileInputRef w of None \<Rightarrow> None | Some v \<Rightarrow> Some [])"
  by (simp add: handleReset_def Let_def stopCamera_def split: option.splits)

lemma handleReset_twice: "handleReset (handleReset w) = handleReset w"
  by (simp add: handleReset_def Let_def stopCamera_def split: option.splits)

lemma render_twice: "render (render w) = render w"
  by (simp add: render_def split: option.splits)

lemma render_handleReset:
  "render (handleReset w) = (handleReset w)\<lparr> fileInputRef := Some [], videoRef := None, canvasRef := None \<rparr>"
  by (simp add: render_def handleReset_fields handleReset_fileInput split: option.splits)

lemma handleReset_rendered_home:
  "mode v = Home \<Longrightarrow> result v = None \<Longrightarrow> error v = None \<Longrightarrow> preview v = None \<Longrightarrow>
   streamRef v = None \<Longrightarrow> fileInputRef v = Some [] \<Longrightarrow> handleReset v = v"
  by (simp add: handleReset_def Let_def stopCamera_def)

text \<open>
  Claim C9. \<open>handleReset\<close> run twice gives the state that one run gives, as a function on
  states and as the click on a reset button followed by rendering. After one run the
  mode is \<open>Home\<close>, the text, the error, the preview and \<open>streamRef\<close> are null, and the
  file input, once it is mounted, has the empty value; the second run therefore changes
  nothing. The function is total: no run of it fails.
\<close>

theorem handleReset_idempotent:
  "handleReset (handleReset w) = handleReset w \<and>
   step ClickReset (step ClickReset w) = step ClickReset w \<and>
   mode (handleReset w) = Home \<and> result (handleReset w) = None \<and>
   error (handleReset w) = None \<and> preview (handleReset w) = None \<and>
   streamRef (handleReset w) = None \<and>
   (fileInputRef (handleReset w) = None \<or> fileInputRef (handleReset w) = Some []) \<and>
   fileInputRef (step ClickReset w) = Some []"
proof -
  let ?v = "step ClickReset w"
  have v: "?v = (handleReset w)\<lparr> fileInputRef := Some [], videoRef := None, canvasRef := None \<rparr>"
    by (simp add: step_def render_handleReset)
  have "handleReset ?v = ?v"
    by (rule handleReset_rendered_home) (simp_all add: v handleReset_fields)
  moreover have "render ?v = ?v"
    by (simp add: step_def render_twice)
  ultimately have "step ClickReset ?v = ?v"
    by (simp add: step_def [of ClickReset ?v])
  moreover have "fileInputRef (handleReset w) = None \<or> fileInputRef (handleReset w) = Some []"
    by (simp add: handleReset_fileInput split: option.splits)
  ultimately show ?thesis
    by (simp add: handleReset_twice handleReset_fields v)
qed

theorem handleReset_idempotent_witness:
  "handleReset (handleReset
     (init\<lparr> mode := Camera, streamRef := Some [4], preview := Some (lit ''data:,''),
           fileInputRef := None, videoRef := Some (Some [4]), canvasRef := Some (300, 150) \<rparr>))
   = init\<lparr> fileInputRef := None, videoRef := Some (Some [4]), canvasRef := Some (300, 150),
          ended := {4}, calls := [TrackStop 4] \<rparr> \<and>
   step ClickReset (step ClickReset
     (init\<lparr> mode := Camera, streamRef := Some [4], preview := Some (lit ''data:,''),
           fileInputRef := None, videoRef := Some (Some [4]), canvasRef := Some (300, 150) \<rparr>))
   = init\<lparr> ended := {4}, calls := [TrackStop 4] \<rparr>"
proof -
  let ?w = "init\<lparr> mode := Camera, streamRef := Some [4], preview := Some (lit ''data:,''),
           fileInputRef := None, videoRef := Some (Some [4]), canvasRef := Some (300, 150) \<rparr>"
  have a: "handleReset ?w = init\<lparr> fileInputRef := None, videoRef := Some (Some [4]),
             canvasRef := Some (300, 150), ended := {4}, calls := [TrackStop 4] \<rparr>"
    by (simp add: handleReset_def Let_def stopCamera_def init_def)
  have b: "step ClickReset ?w = init\<lparr> ended := {4}, calls := [TrackStop 4] \<rparr>"
  proof -
    have "step ClickReset ?w = render (handleReset ?w)"
      by (simp add: step_def)
    also have "\<dots> = render (init\<lparr> fileInputRef := None, videoRef := Some (Some [4]),
             canvasRef := Some (300, 150), ended := {4}, calls := [TrackStop 4] \<rparr>)"
      by (simp only: a)
    also have "\<dots> = init\<lparr> ended := {4}, calls := [TrackStop 4] \<rparr>"
      by (simp add: render_def init_def)
    finally show ?thesis .
  qed
  from handleReset_idempotent [of ?w] a b show ?thesis by simp
qed


section \<open>Capturing a photo\<close>

lemma stopCamera_effect:
  "stopCamera w = w\<lparr> ended := ended w \<union> set (held_tracks w),
                     calls := calls w @ map TrackStop (held_tracks w),
                     streamRef := None \<rparr>"
  by (simp add: stopCamera_def held_tracks_def split: option.splits)

lemma capturePhoto_mounted:
  assumes "videoRef w = Some src" and "canvasRef w = Some d"
  shows "capturePhoto sh w =
     w\<lparr> canvasRef := Some (videoWidth sh, videoHeight sh),
        preview := Some (dataURL sh),
        ended := ended w \<union> set (held_tracks w),
        streamRef := None,
        calls := calls w @ (if context2d sh then [DrawImage] else [])
                   @ [ToDataURL (lit ''image/jpeg'')]
                   @ map TrackStop (held_tracks w)
                   @ [ToBlob (lit ''image/jpeg'') (9 / 10)],
        pendingBlobs := Suc (pendingBlobs w) \<rparr>"
  using assms
  by (simp add: capturePhoto_def Let_def stopCamera_effect held_tracks_def)

text \<open>
  Claim C4. With the video and the canvas mounted (as they are whenever the shutter
  exists), \<open>capturePhoto\<close> makes its platform calls in this order: it draws the frame and
  reads it with \<open>toDataURL\<close>, which is the value the preview is set to; it stops every
  track of the stream it holds and sets \<open>streamRef\<close> to null; it asks \<open>toBlob\<close> for a
  JPEG of quality 0.9. It makes no request and leaves the mode as it is. The tracks are
  stopped before the encoding is asked for, so whatever the encoding gives. When the
  encoding gives no blob, the callback changes nothing: no request, no change of mode,
  and \<open>streamRef\<close> stays null. When it gives a blob, the callback posts the file
  \<open>capture.jpg\<close> and the mode becomes \<open>Processing\<close>.
\<close>

theorem capturePhoto_order:
  assumes "videoRef w = Some src" and "canvasRef w = Some d"
  shows "preview (capturePhoto sh w) = Some (dataURL sh) \<and>
         streamRef (capturePhoto sh w) = None \<and>
         ended (capturePhoto sh w) = ended w \<union> set (held_tracks w) \<and>
         calls (capturePhoto sh w) =
           calls w @ (if context2d sh then [DrawImage] else [])
             @ [ToDataURL (lit ''image/jpeg'')]
             @ map TrackStop (held_tracks w)
             @ [ToBlob (lit ''image/jpeg'') (9 / 10)] \<and>
         mode (capturePhoto sh w) = mode w \<and>
         pendingFetch (capturePhoto sh w) = pendingFetch w \<and>
         pendingBlobs (capturePhoto sh w) = Suc (pendingBlobs w) \<and>
         blob_callback None v = v \<and>
         mode (step (BlobEncoded None) v) = mode v \<and>
         calls (step (BlobEncoded None) v) = calls v \<and>
         pendingFetch (step (BlobEncoded None) v) = pendingFetch v \<and>
         streamRef (step (BlobEncoded None) (step (ClickShutter sh) w)) = None \<and>
         calls (blob_callback (Some bytes) v) =
           calls v @ [FetchPost (lit ''/api/ocr'') (lit ''image'')
                        \<lparr> fileName = lit ''capture.jpg'', fileType = lit ''image/jpeg'',
                          fileBytes = bytes \<rparr>] \<and>
         mode (blob_callback (Some bytes) v) = Processing"
proof -
  note cap = capturePhoto_mounted [OF assms, of sh]
  have none: "blob_callback None u = u" for u
    by (simp add: blob_callback_def)
  have quiet: "mode (step (BlobEncoded None) u) = mode u \<and>
               calls (step (BlobEncoded None) u) = calls u \<and>
               pendingFetch (step (BlobEncoded None) u) = pendingFetch u \<and>
               streamRef (step (BlobEncoded None) u) = streamRef u" for u
    by (simp add: step_def none render_def)
  have shut: "streamRef (step (ClickShutter sh) w) = None"
    by (simp add: step_def cap render_def)
  have some: "calls (blob_callback (Some bytes) v) =
           calls v @ [FetchPost (lit ''/api/ocr'') (lit ''image'')
                        \<lparr> fileName = lit ''capture.jpg'', fileType = lit ''image/jpeg'',
                          fileBytes = bytes \<rparr>] \<and>
         mode (blob_callback (Some bytes) v) = Processing"
    by (simp add: blob_callback_def handleOCR_begin_def)
  show ?thesis
    by (simp add: cap none quiet shut some)
qed

theorem capturePhoto_order_witness:
  "calls (capturePhoto
            \<lparr> videoWidth = 640, videoHeight = 480, context2d = True, dataURL = lit ''data:image/jpeg;base64,AA'' \<rparr>
            (init\<lparr> mode := Camera, streamRef := Some [4], fileInputRef := None,
                  videoRef := Some (Some [4]), canvasRef := Some (300, 150) \<rparr>))
   = [DrawImage, ToDataURL (lit ''image/jpeg''), TrackStop 4, ToBlob (lit ''image/jpeg'') (9 / 10)] \<and>
   ended (capturePhoto
            \<lparr> videoWidth = 640, videoHeight = 480, context2d = True, dataURL = lit ''data:image/jpeg;base64,AA'' \<rparr>
            (init\<lparr> mode := Camera, streamRef := Some [4], fileInputRef := None,
                  videoRef := Some (Some [4]), canvasRef := Some (300, 150) \<rparr>)) = {4} \<and>
   mode (capturePhoto
            \<lparr> videoWidth = 640, videoHeight = 480, context2d = True, dataURL = lit ''data:image/jpeg;base64,AA'' \<rparr>
            (init\<lparr> mode := Camera, streamRef := Some [4], fileInputRef := None,
                  videoRef := Some (Some [4]), canvasRef := Some (300, 150) \<rparr>)) = Camera"
proof -
  let ?w = "init\<lparr> mode := Camera, streamRef := Some [4], fileInputRef := None,
                  videoRef := Some (Some [4]), canvasRef := Some (300, 150) \<rparr>"
  let ?sh = "\<lparr> videoWidth = 640, videoHeight = 480, context2d = True,
               dataURL = lit ''data:image/jpeg;base64,AA'' \<rparr>"
  have v: "videoRef ?w = Some (Some [4])" and c: "canvasRef ?w = Some (300, 150)"
    by simp_all
  have h: "held_tracks ?w = [4]" "calls ?w = []" "ended ?w = {}" "mode ?w = Camera"
    by (simp_all add: held_tracks_def init_def)
  from capturePhoto_order [OF v c, of ?sh] h show ?thesis by simp
qed


section \<open>Modes and the camera stream along runs\<close>

lemma render_mode [simp]: "mode (render w) = mode w"
  by (simp add: render_def)

lemma render_streamRef [simp]: "streamRef (render w) = streamRef w"
  by (simp add: render_def)

lemma capturePhoto_mode: "mode (capturePhoto sh w) = mode w"
  by (simp add: capturePhoto_def Let_def stopCamera_def split: option.splits)

lemma capturePhoto_streamRef:
  "streamRef (capturePhoto sh w) = None \<or> capturePhoto sh w = w"
  by (simp add: capturePhoto_def Let_def stopCamera_def split: option.splits)

text \<open>The mode after an event, event by event.\<close>

lemma mode_handle:
  "mode (handle e w) =
     (case e of
        MediaGranted s \<Rightarrow> Camera
      | ChooseFile v sel \<Rightarrow>
          (if fileInputRef w = None \<or> sel = None then mode w else Processing)
      | BlobEncoded blob \<Rightarrow> (if blob = None then mode w else Processing)
      | FetchSettled outcome \<Rightarrow> Result
      | ClickReset \<Rightarrow> Home
      | _ \<Rightarrow> mode w)"
proof (cases e)
  case (FetchSettled outcome)
  then show ?thesis
    by (cases "ocr_try outcome") (simp_all add: handleOCR_resume_def)
qed (simp_all add: startCamera_begin_def startCamera_granted_def startCamera_denied_def
       bind_video_def handleFileSelect_def handleOCR_begin_def reader_onload_def
       capturePhoto_mode blob_callback_def handleReset_fields handleCopy_def
       split: option.splits)

lemma step_home_only_by_reset:
  "mode (step e w) = Home \<Longrightarrow> mode w \<noteq> Home \<Longrightarrow> e = ClickReset"
  using mode_handle [of e w] by (cases e) (simp_all add: step_def split: if_splits)

lemma handle_home_released:
  assumes "home_released w"
  shows "home_released (handle e w)"
proof (cases e)
  case (FetchSettled outcome)
  then show ?thesis
    by (cases "ocr_try outcome") (simp_all add: home_released_def handleOCR_resume_def)
next
  case (ClickShutter sh)
  with assms capturePhoto_streamRef [of sh w] show ?thesis
    by (auto simp add: home_released_def)
next
  case ClickReset
  then show ?thesis
    by (simp add: home_released_def handleReset_fields)
qed (use assms in \<open>simp_all add: home_released_def startCamera_begin_def
       startCamera_granted_def startCamera_denied_def bind_video_def handleFileSelect_def
       handleOCR_begin_def reader_onload_def blob_callback_def handleCopy_def
       split: option.splits\<close>)

lemma step_home_released: "home_released w \<Longrightarrow> home_released (step e w)"
  using handle_home_released [of w e] by (simp add: step_def home_released_def)

lemma run_home_released:
  "run es w = Some w' \<Longrightarrow> home_released w \<Longrightarrow> home_released w'"
proof (induction es arbitrary: w)
  case Nil
  then show ?case by simp
next
  case (Cons e es)
  from Cons.prems(1) have "run es (step e w) = Some w'"
    by (simp split: if_splits)
  with Cons.IH step_home_released [OF Cons.prems(2)] show ?case
    by blast
qed

lemma init_home_released: "home_released init"
  by (simp add: home_released_def init_def)

text \<open>
  Claim C3. \<open>handleReset\<close> leaves \<open>streamRef\<close> null and the mode \<open>Home\<close>, on every state.
  The reset is the only event that brings the mode back to \<open>Home\<close>. In every state
  that a run from the initial state reaches, \<open>streamRef\<close> is null when the mode is
  \<open>Home\<close>.
\<close>

theorem streamRef_null_at_home:
  "streamRef (handleReset w) = None \<and> mode (handleReset w) = Home \<and>
   streamRef (step ClickReset w) = None \<and> mode (step ClickReset w) = Home \<and>
   (mode (step e w) = Home \<and> mode w \<noteq> Home \<longrightarrow> e = ClickReset) \<and>
   (run es init = Some w' \<and> mode w' = Home \<longrightarrow> streamRef w' = None)"
proof -
  have "streamRef w' = None" if "run es init = Some w'" and "mode w' = Home"
    using run_home_released [OF that(1) init_home_released] that(2)
    by (simp add: home_released_def)
  moreover have "e = ClickReset" if "mode (step e w) = Home" and "mode w \<noteq> Home"
    using that by (rule step_home_only_by_reset)
  ultimately show ?thesis
    by (simp add: handleReset_fields step_def)
qed


theorem streamRef_null_at_home_witness:
  "run [ClickScan, MediaGranted [4], ClickReset] init
     = Some (init\<lparr> ended := {4}, calls := [GetUserMedia, SetTimeout 50, TrackStop 4],
                   pendingTimers := [[4]] \<rparr>) \<and>
   mode (init\<lparr> ended := {4}, calls := [GetUserMedia, SetTimeout 50, TrackStop 4],
              pendingTimers := [[4]] \<rparr>) = Home \<and>
   streamRef (init\<lparr> ended := {4}, calls := [GetUserMedia, SetTimeout 50, TrackStop 4],
                   pendingTimers := [[4]] \<rparr>) = None \<and>
   streamRef (handleReset (init\<lparr> mode := Camera, streamRef := Some [4] \<rparr>)) = None"
proof -
  let ?w = "init\<lparr> ended := {4}, calls := [GetUserMedia, SetTimeout 50, TrackStop 4],
                 pendingTimers := [[4]] \<rparr>"
  have r: "run [ClickScan, MediaGranted [4], ClickReset] init = Some ?w"
    by (simp add: step_def render_def init_def startCamera_begin_def startCamera_granted_def
          handleReset_def stopCamera_def Let_def)
  have m: "mode ?w = Home"
    by (simp add: init_def)
  from streamRef_null_at_home
         [of "init\<lparr> mode := Camera, streamRef := Some [4] \<rparr>" ClickReset
             "[ClickScan, MediaGranted [4], ClickReset]" ?w] r m
  show ?thesis by simp
qed

text \<open>
  Claim C1 fails on a run that the rendered elements allow. The user clicks the scan
  card; while the request for the camera is pending the mode is still \<open>Home\<close>, and the
  user chooses a file, which starts the upload and sets the mode to \<open>Processing\<close>. The
  camera is then granted: \<open>startCamera\<close> resumes and sets the mode to \<open>Camera\<close>. The
  upload then completes: \<open>handleOCR\<close> resumes and sets the mode to \<open>Result\<close>, with the
  stream still held and its track running. Neither \<open>Processing\<close> to \<open>Camera\<close> nor
  \<open>Camera\<close> to \<open>Result\<close> is a permitted transition.
\<close>

theorem late_camera_grant_breaks_transitions:
  "run late_grant init \<noteq> None \<and>
   mode_path late_grant init = [Home, Home, Processing, Camera, Result] \<and>
   \<not> spec_edge Processing Camera \<and>
   \<not> spec_edge Camera Result \<and>
   \<not> lawful (mode_path late_grant init) \<and>
   map_option mode (run late_grant init) = Some Result \<and>
   map_option streamRef (run late_grant init) = Some (Some [4]) \<and>
   map_option ended (run late_grant init) = Some {}"
proof -
  have p: "mode_path late_grant init = [Home, Home, Processing, Camera, Result]"
    by (simp add: late_grant_def step_def render_def init_def startCamera_begin_def
          handleFileSelect_def handleOCR_begin_def startCamera_granted_def
          handleOCR_resume_def ocr_try_def ok_def)
  have e: "\<not> spec_edge Processing Camera" "\<not> spec_edge Camera Result"
    by (simp_all add: spec_edge_def)
  have l: "\<not> lawful [Home, Home, Processing, Camera, Result]"
    by (simp add: spec_edge_def)
  have r: "map_option mode (run late_grant init) = Some Result \<and>
           map_option streamRef (run late_grant init) = Some (Some [4]) \<and>
           map_option ended (run late_grant init) = Some {}"
    by (simp add: late_grant_def step_def render_def init_def startCamera_begin_def
          handleFileSelect_def handleOCR_begin_def startCamera_granted_def
          handleOCR_resume_def ocr_try_def ok_def)
  have "x \<noteq> None" if "map_option mode x = Some Result" for x :: "world option"
    using that by (cases x) simp_all
  with r have "run late_grant init \<noteq> None"
    by blast
  with p e l r show ?thesis
    by simp
qed

lemma step_on_time_edge:
  assumes "enabled w e" and "on_time w e"
  shows "mode (step e w) = mode w \<or> spec_edge (mode w) (mode (step e w))"
  using assms mode_handle [of e w]
  by (cases e) (auto simp add: step_def on_time_def spec_edge_def split: if_splits)

lemma lawful_Cons:
  "lawful (a # ms) = (case ms of [] \<Rightarrow> True | b # bs \<Rightarrow> (a = b \<or> spec_edge a b) \<and> lawful ms)"
  by (cases ms) simp_all

lemma mode_path_head: "\<exists>ms. mode_path es w = mode w # ms"
  by (cases es) simp_all

text \<open>
  Along a run in which every event is enabled, every callback is on time and every
  file is chosen at home, every change of mode is a permitted transition.
\<close>

theorem timely_run_lawful:
  "timely es w \<Longrightarrow> lawful (mode_path es w)"
proof (induction es arbitrary: w)
  case Nil
  then show ?case by simp
next
  case (Cons e es)
  from Cons.prems have en: "enabled w e" and ot: "on_time w e" and rest: "timely es (step e w)"
    by simp_all
  obtain ms where ms: "mode_path es (step e w) = mode (step e w) # ms"
    using mode_path_head by blast
  from Cons.IH [OF rest] have "lawful (mode_path es (step e w))" .
  moreover from step_on_time_edge [OF en ot]
  have "mode w = mode (step e w) \<or> spec_edge (mode w) (mode (step e w))"
    by auto
  ultimately show ?case
    by (simp add: ms)
qed

theorem timely_run_lawful_witness:
  "timely [ClickScan, MediaGranted [4], ClickReset] init \<and>
   lawful (mode_path [ClickScan, MediaGranted [4], ClickReset] init) \<and>
   mode_path [ClickScan, MediaGranted [4], ClickReset] init = [Home, Home, Camera, Home]"
proof -
  have t: "timely [ClickScan, MediaGranted [4], ClickReset] init"
    by (simp add: step_def render_def init_def startCamera_begin_def startCamera_granted_def
          on_time_def)
  have p: "mode_path [ClickScan, MediaGranted [4], ClickReset] init = [Home, Home, Camera, Home]"
    by (simp add: step_def render_def init_def startCamera_begin_def startCamera_granted_def
          handleReset_def stopCamera_def Let_def)
  from timely_run_lawful [OF t] t p show ?thesis by simp
qed


section \<open>Uploads that the server rejects\<close>

lemma express_default_new_Error: "express_default (new_Error m) = \<lparr> code = 500, payload = ErrorPage \<rparr>"
  by (simp add: express_default_def new_Error_def error_status_def)

text \<open>
  An upload whose MIME type does not start with \<open>image/\<close>, or that is longer than the
  size limit, never reaches the route handler: the middleware passes an error without
  a status to the final handler, and Express's default one answers 500.
\<close>

lemma rejected_upload_reaches_final_handler:
  assumes "\<not> prefix (lit ''image/'') (mimetype f) \<or> fileSize < byteCount f"
  shows "\<exists>m. post_api_ocr final (Some f) api now = final (new_Error m)"
  using assms by (auto simp add: post_api_ocr_def multer_single_def fileFilter_def)

lemma rejected_upload_status_500:
  assumes "\<not> prefix (lit ''image/'') (mimetype f) \<or> fileSize < byteCount f"
  shows "post_api_ocr express_default (Some f) api now = \<lparr> code = 500, payload = ErrorPage \<rparr>"
  using rejected_upload_reaches_final_handler [OF assms, of express_default api now]
  by (auto simp add: express_default_new_Error)

text \<open>
  Claim C7 fails on the code. A part of type \<open>text/plain\<close>, and a part of type
  \<open>image/png\<close> that is one byte longer than 50 MiB, are both answered with status 500
  and the default error page, whatever the transcription service would have said; the
  status 400 of the route handler is given only when no file arrives at all.
\<close>

theorem rejected_upload_answered_500:
  "post_api_ocr express_default (Some \<lparr> mimetype = lit ''text/plain'', byteCount = 12 \<rparr>) api now
     = \<lparr> code = 500, payload = ErrorPage \<rparr> \<and>
   post_api_ocr express_default
       (Some \<lparr> mimetype = lit ''image/png'', byteCount = 52428801 \<rparr>) api now
     = \<lparr> code = 500, payload = ErrorPage \<rparr> \<and>
   code (post_api_ocr express_default None api now) = 400"
proof -
  have a: "post_api_ocr express_default (Some \<lparr> mimetype = lit ''text/plain'', byteCount = 12 \<rparr>)
             api now = \<lparr> code = 500, payload = ErrorPage \<rparr>"
    by (rule rejected_upload_status_500) (simp add: lit_def)
  have b: "post_api_ocr express_default
             (Some \<lparr> mimetype = lit ''image/png'', byteCount = 52428801 \<rparr>) api now
           = \<lparr> code = 500, payload = ErrorPage \<rparr>"
    by (rule rejected_upload_status_500) (simp add: fileSize_def)
  have c: "code (post_api_ocr express_default None api now) = 400"
    by (simp add: post_api_ocr_def multer_single_def ocr_route_def)
  from a b c show ?thesis by simp
qed

text \<open>An image within the limit does reach the route handler.\<close>

lemma accepted_upload_reaches_route:
  assumes "prefix (lit ''image/'') (mimetype f)" and "byteCount f \<le> fileSize"
  shows "post_api_ocr final (Some f) api now = ocr_route (Some f) api now"
  using assms by (simp add: post_api_ocr_def multer_single_def fileFilter_def)

end
